theory Spec2Isabelle
  imports Complex_Main
begin

section \<open>Python values\<close>

text \<open>
  The server passes untyped values of the memory library through: what \<open>search\<close>,
  \<open>get_all\<close> and \<open>add\<close> return is inspected with \<open>isinstance\<close>, \<open>hasattr\<close>
  and truth tests. \<open>pyval\<close> is the part of Python's value universe those tests
  distinguish. A \<open>str\<close> is a \<open>string\<close>, one \<open>char\<close> per character (the
  characters up to code point 255); a \<open>float\<close> is a \<open>real\<close>: the code only stores
  and returns floats, it never computes with them. A \<open>dict\<close> is an association list
  keyed by strings, looked up with \<open>map_of\<close>. \<open>PObj c attrs\<close> is an instance of
  a class named \<open>c\<close> that is none of the built-in types, with its attributes.
\<close>

datatype pyval =
    PNone
  | PBool bool
  | PInt int
  | PFloat real
  | PStr string
  | PList "pyval list"
  | PDict "(string \<times> pyval) list"
  | PObj string "(string \<times> pyval) list"

type_synonym pydict = "(string \<times> pyval) list"

text \<open>The truth value of \<open>if v:\<close> and \<open>not v\<close>.\<close>

fun truthy :: "pyval \<Rightarrow> bool" where
  "truthy PNone = False"
| "truthy (PBool b) = b"
| "truthy (PInt i) = (i \<noteq> 0)"
| "truthy (PFloat x) = (x \<noteq> 0)"
| "truthy (PStr s) = (s \<noteq> [])"
| "truthy (PList xs) = (xs \<noteq> [])"
| "truthy (PDict d) = (d \<noteq> [])"
| "truthy (PObj c attrs) = True"

fun type_name :: "pyval \<Rightarrow> string" where
  "type_name PNone = ''NoneType''"
| "type_name (PBool b) = ''bool''"
| "type_name (PInt i) = ''int''"
| "type_name (PFloat x) = ''float''"
| "type_name (PStr s) = ''str''"
| "type_name (PList xs) = ''list''"
| "type_name (PDict d) = ''dict''"
| "type_name (PObj c attrs) = c"

definition quoted :: "string \<Rightarrow> string" where
  "quoted s = [CHR 0x27] @ s @ [CHR 0x27]"

text \<open>
  An exception that an \<open>except Exception as e\<close> clause catches is represented by its
  message \<open>str(e)\<close>: a computation that may raise returns \<open>Inl\<close> of the message.
\<close>

text \<open>\<open>len(v)\<close>: a \<open>TypeError\<close> for a value without a length.\<close>

fun py_len :: "pyval \<Rightarrow> string + nat" where
  "py_len (PStr s) = Inr (length s)"
| "py_len (PList xs) = Inr (length xs)"
| "py_len (PDict d) = Inr (length d)"
| "py_len v = Inl (''object of type '' @ quoted (type_name v) @ '' has no len()'')"

text \<open>
  \<open>for x in v\<close>: the elements of a list, the keys of a dict, the characters of a
  string; a \<open>TypeError\<close> for any other value.
\<close>

fun py_iter :: "pyval \<Rightarrow> string + pyval list" where
  "py_iter (PList xs) = Inr xs"
| "py_iter (PDict d) = Inr (map (\<lambda>kv. PStr (fst kv)) d)"
| "py_iter (PStr s) = Inr (map (\<lambda>c. PStr [c]) s)"
| "py_iter v = Inl (quoted (type_name v) @ '' object is not iterable'')"

text \<open>\<open>d.get(k, default)\<close> on a dict.\<close>

definition dict_get :: "pydict \<Rightarrow> string \<Rightarrow> pyval \<Rightarrow> pyval" where
  "dict_get d k dflt = (case map_of d k of None \<Rightarrow> dflt | Some v \<Rightarrow> v)"

text \<open>
  \<open>hasattr(v, name)\<close> and \<open>getattr(v, name, default)\<close>, for the attribute names the
  server asks for (\<open>memory\<close>, \<open>score\<close>, \<open>metadata\<close>, \<open>id\<close>): no built-in type
  has one of them, so only an object can.
\<close>

fun hasattr :: "pyval \<Rightarrow> string \<Rightarrow> bool" where
  "hasattr (PObj c attrs) name = (map_of attrs name \<noteq> None)"
| "hasattr v name = False"

fun getattr :: "pyval \<Rightarrow> string \<Rightarrow> pyval \<Rightarrow> pyval" where
  "getattr (PObj c attrs) name dflt = dict_get attrs name dflt"
| "getattr v name dflt = dflt"

text \<open>\<open>str(n)\<close> for a count, as the f-strings of the responses print it.\<close>

fun str_of_nat :: "nat \<Rightarrow> string" where
  "str_of_nat n =
     (if n < 10 then [''0123456789'' ! n]
      else str_of_nat (n div 10) @ [''0123456789'' ! (n mod 10)])"

declare str_of_nat.simps [simp del]

section \<open>Request and response models\<close>

text \<open>
  A handler either returns its response model or raises. \<open>HTTPException\<close> carries the
  status code and the detail; \<open>RequestValidationError\<close> is what FastAPI raises when the
  request body violates the model's \<open>Field\<close> constraints, with the locations of the
  offending fields.
\<close>

datatype http_error =
    HTTPException nat string
  | RequestValidationError "string list list"

text \<open>
  The status code of the response FastAPI sends: 200 when the handler returned, the
  code of an \<open>HTTPException\<close>, 422 for a request that failed validation.
\<close>

fun status_code :: "http_error + 'a \<Rightarrow> nat" where
  "status_code (Inr r) = 200"
| "status_code (Inl (HTTPException code detail)) = code"
| "status_code (Inl (RequestValidationError locs)) = 422"

text \<open>
  The models of \<open>mem0_server.py\<close>. A record holds the field values of a request body
  after JSON decoding; the \<open>_errors\<close> function of a model checks the constraints its
  \<open>Field\<close> declarations state and returns the locations of the fields that violate
  them (none when the body is valid).
\<close>

record MemoryInput =
  content :: string
  user_id :: string
  metadata :: "pydict option"

definition MemoryInput_errors :: "MemoryInput \<Rightarrow> string list list" where
  "MemoryInput_errors m =
     (if length (content m) < 1 then [[''content'']] else []) @
     (if length (MemoryInput.user_id m) < 1 then [[''user_id'']] else [])"

record SearchInput =
  query :: string
  user_id :: string
  limit :: int

definition SearchInput_errors :: "SearchInput \<Rightarrow> string list list" where
  "SearchInput_errors q =
     (if length (query q) < 1 then [[''query'']] else []) @
     (if length (SearchInput.user_id q) < 1 then [[''user_id'']] else []) @
     (if limit q < 1 \<or> 100 < limit q then [[''limit'']] else [])"

record BatchMemoryInput =
  memories :: "MemoryInput list"

text \<open>
  A list of more than 50 items is refused as a whole, before its items are looked
  at; otherwise each item is validated as a \<open>MemoryInput\<close>.
\<close>

definition BatchMemoryInput_errors :: "BatchMemoryInput \<Rightarrow> string list list" where
  "BatchMemoryInput_errors b =
     (if 50 < length (memories b) then [[''memories'']]
      else (if length (memories b) < 1 then [[''memories'']] else []) @
           concat (map (\<lambda>(i, m). map (\<lambda>loc. ''memories'' # str_of_nat i # loc)
                                     (MemoryInput_errors m))
                       (enumerate 0 (memories b))))"

record SuccessResponse =
  success :: bool
  message :: "string option"
  data :: "pydict option"

record SearchResult =
  memory :: string
  score :: real
  metadata :: "pydict option"

record SearchResponse =
  success :: bool
  results :: "SearchResult list"
  count :: nat

record MemoryListResponse =
  success :: bool
  memories :: "pydict list"
  count :: nat

text \<open>
  \<open>SearchResult(memory=m, score=s, metadata=md)\<close> validates values that come from the
  library: \<open>memory: str\<close> takes a string only, \<open>metadata: Optional[Dict[str, Any]]\<close>
  takes \<open>None\<close> or a dict, \<open>score: float\<close> takes a float as it is. What pydantic
  makes of a score that is not a float (it converts an int or a numeric string,
  it refuses \<open>None\<close>) is the parameter \<open>coerce\<close>. Refused values raise pydantic's
  \<open>ValidationError\<close>; its message begins with the number of refused values and the
  name of the model, and this first line is what the model keeps of it.
\<close>

definition validation_message :: "string \<Rightarrow> nat \<Rightarrow> string" where
  "validation_message model n =
     str_of_nat n @
     (if n = 1 then '' validation error for '' else '' validation errors for '') @ model"

fun refused :: "'a option \<Rightarrow> nat" where
  "refused None = 1"
| "refused (Some x) = 0"

fun as_str :: "pyval \<Rightarrow> string option" where
  "as_str (PStr t) = Some t"
| "as_str v = None"

fun as_float :: "(pyval \<Rightarrow> real option) \<Rightarrow> pyval \<Rightarrow> real option" where
  "as_float coerce (PFloat x) = Some x"
| "as_float coerce v = coerce v"

fun as_optional_dict :: "pyval \<Rightarrow> pydict option option" where
  "as_optional_dict PNone = Some None"
| "as_optional_dict (PDict d) = Some (Some d)"
| "as_optional_dict v = None"

definition SearchResult_init ::
  "(pyval \<Rightarrow> real option) \<Rightarrow> pyval \<Rightarrow> pyval \<Rightarrow> pyval \<Rightarrow> string + SearchResult" where
  "SearchResult_init coerce m s md =
     (case (as_str m, as_float coerce s, as_optional_dict md) of
        (Some t, Some x, Some d) \<Rightarrow> Inr \<lparr>memory = t, score = x, metadata = d\<rparr>
      | _ \<Rightarrow>
          Inl (validation_message ''SearchResult''
                 (refused (as_str m) + refused (as_float coerce s) +
                  refused (as_optional_dict md))))"

text \<open>
  \<open>MemoryListResponse(success=True, memories=ms, count=n)\<close> with
  \<open>memories: List[Dict[str, Any]]\<close>: a list whose elements are all dicts. Each
  element that is no dict is refused; a value that is no list is refused as a whole.
\<close>

fun as_dict :: "pyval \<Rightarrow> pydict option" where
  "as_dict (PDict d) = Some d"
| "as_dict v = None"

fun as_dict_list :: "pyval list \<Rightarrow> pydict list option" where
  "as_dict_list [] = Some []"
| "as_dict_list (v # vs) =
     (case as_dict v of
        None \<Rightarrow> None
      | Some d \<Rightarrow> (case as_dict_list vs of None \<Rightarrow> None | Some ds \<Rightarrow> Some (d # ds)))"

fun MemoryListResponse_init :: "pyval \<Rightarrow> nat \<Rightarrow> string + MemoryListResponse" where
  "MemoryListResponse_init (PList vs) n =
     (case as_dict_list vs of
        None \<Rightarrow>
          Inl (validation_message ''MemoryListResponse''
                 (length (filter (\<lambda>v. as_dict v = None) vs)))
      | Some ds \<Rightarrow> Inr \<lparr>success = True, memories = ds, count = n\<rparr>)"
| "MemoryListResponse_init v n = Inl (validation_message ''MemoryListResponse'' 1)"

text \<open>
  The schemas of \<open>app/models/schemas.py\<close> for the same request bodies:
  \<open>MemoryCreate\<close> has the fields of \<open>MemoryInput\<close>, \<open>MemorySearch\<close> those of
  \<open>SearchInput\<close> (and an unconstrained \<open>filters\<close>), both with upper bounds on the
  lengths. No handler of \<open>mem0_server.py\<close> uses them.
\<close>

definition MemoryCreate_errors :: "MemoryInput \<Rightarrow> string list list" where
  "MemoryCreate_errors m =
     (if length (content m) < 1 \<or> 10000 < length (content m) then [[''content'']] else []) @
     (if length (MemoryInput.user_id m) < 1 \<or> 100 < length (MemoryInput.user_id m)
      then [[''user_id'']] else [])"

definition MemorySearch_errors :: "SearchInput \<Rightarrow> string list list" where
  "MemorySearch_errors q =
     (if length (query q) < 1 \<or> 500 < length (query q) then [[''query'']] else []) @
     (if length (SearchInput.user_id q) < 1 \<or> 100 < length (SearchInput.user_id q)
      then [[''user_id'']] else []) @
     (if limit q < 1 \<or> 100 < limit q then [[''limit'']] else [])"

section \<open>The memory library and the state of the server\<close>

text \<open>
  The library object \<open>Memory\<close> is external: its four methods are functions of the
  state \<open>'b\<close> of the services behind it (vector store, embedding API). A method
  returns its value or raises (\<open>Inl\<close> of the exception's message), and leaves a new
  state of the services either way.
\<close>

record 'b Memory =
  add :: "string \<Rightarrow> string \<Rightarrow> pydict \<Rightarrow> 'b \<Rightarrow> (string + pyval) \<times> 'b"
  search :: "string \<Rightarrow> string \<Rightarrow> int \<Rightarrow> 'b \<Rightarrow> (string + pyval) \<times> 'b"
  get_all :: "string \<Rightarrow> int option \<Rightarrow> 'b \<Rightarrow> (string + pyval) \<times> 'b"
  delete :: "pyval \<Rightarrow> 'b \<Rightarrow> (string + unit) \<times> 'b"

text \<open>The calls made to the library, with their arguments, in the order made.\<close>

datatype call =
    Add string string pydict
  | Search string string int
  | Get_all string "int option"
  | Delete pyval

text \<open>
  The state a handler runs in: the module's globals (\<open>memory_instance\<close>, which is
  \<open>None\<close> or the library object; the four configuration constants), the
  process environment that \<open>os.getenv\<close> reads, the state
  of the external services, and the log of the library calls made so far.
\<close>

record configuration =
  QDRANT_URL :: string
  QDRANT_API_KEY :: string
  OPENAI_API_KEY :: string
  MEM0_COLLECTION :: string

record 'b state =
  memory_instance :: "'b Memory option"
  config :: configuration
  environ :: "(string \<times> string) list"
  backend :: 'b
  calls :: "call list"

text \<open>Calling a method of the library: the call is logged, the services change state.\<close>

definition invoke ::
  "call \<Rightarrow> ('b \<Rightarrow> (string + 'a) \<times> 'b) \<Rightarrow> 'b state \<Rightarrow> (string + 'a) \<times> 'b state" where
  "invoke c method s =
     (case method (backend s) of
        (r, b) \<Rightarrow> (r, s\<lparr>backend := b, calls := calls s @ [c]\<rparr>))"

text \<open>\<open>os.getenv(name)\<close> and \<open>os.getenv(name, default)\<close>.\<close>

definition getenv :: "(string \<times> string) list \<Rightarrow> string \<Rightarrow> string option" where
  "getenv env name = map_of env name"

definition getenv_default :: "(string \<times> string) list \<Rightarrow> string \<Rightarrow> string \<Rightarrow> string" where
  "getenv_default env name dflt = (case map_of env name of None \<Rightarrow> dflt | Some v \<Rightarrow> v)"

text \<open>
  The configuration block of \<open>mem0_server.py\<close>, run when the module is loaded:
  four \<open>os.getenv\<close> calls, each with a default.
\<close>

definition load_configuration :: "(string \<times> string) list \<Rightarrow> configuration" where
  "load_configuration env =
     \<lparr>QDRANT_URL = getenv_default env ''QDRANT_URL'' ''http://localhost:6333'',
      QDRANT_API_KEY = getenv_default env ''QDRANT_API_KEY'' [],
      OPENAI_API_KEY = getenv_default env ''OPENAI_API_KEY'' [],
      MEM0_COLLECTION = getenv_default env ''MEM0_COLLECTION'' ''user_memories''\<rparr>"

text \<open>The state after the module is loaded: \<open>memory_instance = None\<close>.\<close>

definition loaded :: "(string \<times> string) list \<Rightarrow> 'b \<Rightarrow> 'b state" where
  "loaded env b =
     \<lparr>memory_instance = None, config = load_configuration env, environ = env,
      backend = b, calls = []\<rparr>"

section \<open>Exception handler and health endpoint\<close>

datatype JSONResponse = JSONResponse nat pydict

text \<open>The handler receives the exception; \<open>exc\<close> is its message \<open>str(exc)\<close>.\<close>

definition global_exception_handler :: "'b state \<Rightarrow> string \<Rightarrow> JSONResponse" where
  "global_exception_handler s exc =
     JSONResponse 500
       [(''success'', PBool False),
        (''error'', PStr ''Internal server error''),
        (''detail'', if getenv (environ s) ''DEBUG'' = Some ''true'' then PStr exc else PNone)]"

definition health_check :: "'b state \<Rightarrow> http_error + pydict" where
  "health_check s =
     Inr [(''status'', PStr (if memory_instance s \<noteq> None then ''healthy'' else ''degraded'')),
          (''service'', PStr ''mem0-server''),
          (''version'', PStr ''1.0.0''),
          (''connections'', PDict
             [(''qdrant'', PDict
                 [(''url'', PStr (QDRANT_URL (config s))),
                  (''status'', PStr (if memory_instance s \<noteq> None then ''connected''
                                     else ''disconnected''))]),
              (''collection'', PStr (MEM0_COLLECTION (config s)))])]"

section \<open>Memory endpoints\<close>

definition not_initialized :: http_error where
  "not_initialized = HTTPException 503 ''Memory service not initialized''"

text \<open>\<open>memory.metadata or {}\<close>\<close>

fun or_empty :: "pydict option \<Rightarrow> pydict" where
  "or_empty None = []"
| "or_empty (Some d) = d"

definition add_memory ::
  "'b state \<Rightarrow> MemoryInput \<Rightarrow> (http_error + SuccessResponse) \<times> 'b state" where
  "add_memory s memory_input =
     (case memory_instance s of
        None \<Rightarrow> (Inl not_initialized, s)
      | Some m \<Rightarrow>
          (case invoke (Add (content memory_input) (MemoryInput.user_id memory_input)
                            (or_empty (MemoryInput.metadata memory_input)))
                       (add m (content memory_input) (MemoryInput.user_id memory_input)
                            (or_empty (MemoryInput.metadata memory_input))) s of
             (Inr result, s') \<Rightarrow>
               (Inr \<lparr>SuccessResponse.success = True, message = Some ''Memory added successfully'',
                      data = Some [(''memory_id'', result)]\<rparr>, s')
           | (Inl e, s') \<Rightarrow>
               (Inl (HTTPException 500 (''Failed to add memory: '' @ e)), s')))"

text \<open>
  The three shapes of a raw search result, in the order the handler tests them, and
  the values it starts from (\<open>memory_text = ""\<close>, \<open>score = 1.0\<close>, \<open>metadata = {}\<close>)
  where no test assigns.
\<close>

fun format_result :: "pyval \<Rightarrow> pyval \<times> pyval \<times> pyval" where
  "format_result (PDict d) =
     (dict_get d ''memory'' (PStr []), dict_get d ''score'' (PFloat 0),
      dict_get d ''metadata'' PNone)"
| "format_result r =
     (if hasattr r ''memory''
      then (getattr r ''memory'' (PStr []), getattr r ''score'' (PFloat 0),
            getattr r ''metadata'' PNone)
      else (case r of
              PStr s \<Rightarrow> (PStr s, PFloat 1, PDict [])
            | _ \<Rightarrow> (PStr [], PFloat 1, PDict [])))"

text \<open>The body of the loop: the three values, then the \<open>SearchResult\<close> of them.\<close>

definition format_item :: "(pyval \<Rightarrow> real option) \<Rightarrow> pyval \<Rightarrow> string + SearchResult" where
  "format_item coerce r =
     (case format_result r of
        (memory_text, sc, md) \<Rightarrow> SearchResult_init coerce memory_text sc md)"

fun format_results ::
  "(pyval \<Rightarrow> real option) \<Rightarrow> pyval list \<Rightarrow> SearchResult list \<Rightarrow> string + SearchResult list" where
  "format_results coerce [] formatted_results = Inr formatted_results"
| "format_results coerce (r # rs) formatted_results =
     (case format_item coerce r of
        Inl e \<Rightarrow> Inl e
      | Inr item \<Rightarrow> format_results coerce rs (formatted_results @ [item]))"

text \<open>
  What the handler does with the value \<open>search\<close> returned: the log line evaluates
  \<open>len(results) if results else 0\<close>, then the loop runs when \<open>results\<close> is true.
\<close>

definition search_response :: "(pyval \<Rightarrow> real option) \<Rightarrow> pyval \<Rightarrow> string + SearchResponse" where
  "search_response coerce raw_results =
     (if truthy raw_results
      then (case py_len raw_results of
              Inl e \<Rightarrow> Inl e
            | Inr n \<Rightarrow>
                (case py_iter raw_results of
                   Inl e \<Rightarrow> Inl e
                 | Inr rs \<Rightarrow>
                     (case format_results coerce rs [] of
                        Inl e \<Rightarrow> Inl e
                      | Inr formatted_results \<Rightarrow>
                          Inr \<lparr>SearchResponse.success = True, results = formatted_results,
                               SearchResponse.count = length formatted_results\<rparr>)))
      else Inr \<lparr>SearchResponse.success = True, results = [], SearchResponse.count = 0\<rparr>)"

definition search_memory ::
  "(pyval \<Rightarrow> real option) \<Rightarrow> 'b state \<Rightarrow> SearchInput \<Rightarrow>
     (http_error + SearchResponse) \<times> 'b state" where
  "search_memory coerce s search_input =
     (case memory_instance s of
        None \<Rightarrow> (Inl not_initialized, s)
      | Some m \<Rightarrow>
          (case invoke (Search (query search_input) (SearchInput.user_id search_input)
                               (limit search_input))
                       (search m (query search_input) (SearchInput.user_id search_input)
                               (limit search_input)) s of
             (Inl e, s') \<Rightarrow>
               (Inl (HTTPException 500 (''Failed to search memory: '' @ e)), s')
           | (Inr raw_results, s') \<Rightarrow>
               (case search_response coerce raw_results of
                  Inl e \<Rightarrow> (Inl (HTTPException 500 (''Failed to search memory: '' @ e)), s')
                | Inr response \<Rightarrow> (Inr response, s'))))"

text \<open>
  \<open>get_all\<close> returns a plain list or, in newer versions of the library, a dict with
  the list under \<open>results\<close>; anything else counts as no memories.
\<close>

fun extract_memories :: "pyval \<Rightarrow> pyval" where
  "extract_memories (PDict d) = (case map_of d ''results'' of Some v \<Rightarrow> v | None \<Rightarrow> PList [])"
| "extract_memories (PList xs) = PList xs"
| "extract_memories raw = PList []"

definition get_memories ::
  "'b state \<Rightarrow> string \<Rightarrow> int \<Rightarrow> (http_error + MemoryListResponse) \<times> 'b state" where
  "get_memories s uid max_count =
     (case memory_instance s of
        None \<Rightarrow> (Inl not_initialized, s)
      | Some m \<Rightarrow>
          (case invoke (Get_all uid (Some max_count)) (get_all m uid (Some max_count)) s of
             (Inl e, s') \<Rightarrow> (Inl (HTTPException 500 (''Failed to get memories: '' @ e)), s')
           | (Inr raw, s') \<Rightarrow>
               (case py_len (extract_memories raw) of
                  Inl e \<Rightarrow> (Inl (HTTPException 500 (''Failed to get memories: '' @ e)), s')
                | Inr n \<Rightarrow>
                    (case MemoryListResponse_init (extract_memories raw) n of
                       Inl e \<Rightarrow>
                         (Inl (HTTPException 500 (''Failed to get memories: '' @ e)), s')
                     | Inr response \<Rightarrow> (Inr response, s')))))"

definition delete_memory ::
  "'b state \<Rightarrow> string \<Rightarrow> (http_error + SuccessResponse) \<times> 'b state" where
  "delete_memory s memory_id =
     (case memory_instance s of
        None \<Rightarrow> (Inl not_initialized, s)
      | Some m \<Rightarrow>
          (case invoke (Delete (PStr memory_id)) (delete m (PStr memory_id)) s of
             (Inr u, s') \<Rightarrow>
               (Inr \<lparr>SuccessResponse.success = True, message = Some ''Memory deleted successfully'',
                      data = None\<rparr>, s')
           | (Inl e, s') \<Rightarrow>
               (Inl (HTTPException 500 (''Failed to delete memory: '' @ e)), s')))"


text \<open>
  \<open>mem.get("id") if isinstance(mem, dict) else getattr(mem, "id", None)\<close>
\<close>

fun memory_id_of :: "pyval \<Rightarrow> pyval" where
  "memory_id_of (PDict d) = dict_get d ''id'' PNone"
| "memory_id_of mem = getattr mem ''id'' PNone"

text \<open>
  The loop of \<open>delete_user_memories\<close>: an entry whose id is true is deleted and
  counted; an exception of \<open>delete\<close> leaves the loop.
\<close>

fun delete_each ::
  "'b Memory \<Rightarrow> pyval list \<Rightarrow> nat \<Rightarrow> 'b state \<Rightarrow> (string + nat) \<times> 'b state" where
  "delete_each m [] deleted_count s = (Inr deleted_count, s)"
| "delete_each m (mem # mems) deleted_count s =
     (if truthy (memory_id_of mem)
      then (case invoke (Delete (memory_id_of mem)) (delete m (memory_id_of mem)) s of
              (Inl e, s') \<Rightarrow> (Inl e, s')
            | (Inr u, s') \<Rightarrow> delete_each m mems (deleted_count + 1) s')
      else delete_each m mems deleted_count s)"

definition deleted_response :: "nat \<Rightarrow> SuccessResponse" where
  "deleted_response deleted_count =
     \<lparr>SuccessResponse.success = True,
      message = Some (''Deleted '' @ str_of_nat deleted_count @ '' memories''),
      data = Some [(''deleted_count'', PInt (int deleted_count))]\<rparr>"

definition delete_failed :: "string \<Rightarrow> http_error" where
  "delete_failed e = HTTPException 500 (''Failed to delete memories: '' @ e)"

definition delete_user_memories ::
  "'b state \<Rightarrow> string \<Rightarrow> (http_error + SuccessResponse) \<times> 'b state" where
  "delete_user_memories s uid =
     (case memory_instance s of
        None \<Rightarrow> (Inl not_initialized, s)
      | Some m \<Rightarrow>
          (case invoke (Get_all uid None) (get_all m uid None) s of
             (Inl e, s') \<Rightarrow> (Inl (delete_failed e), s')
           | (Inr raw, s') \<Rightarrow>
               (if truthy (extract_memories raw)
                then (case py_iter (extract_memories raw) of
                        Inl e \<Rightarrow> (Inl (delete_failed e), s')
                      | Inr mems \<Rightarrow>
                          (case delete_each m mems 0 s' of
                             (Inl e, s'') \<Rightarrow> (Inl (delete_failed e), s'')
                           | (Inr deleted_count, s'') \<Rightarrow>
                               (Inr (deleted_response deleted_count), s'')))
                else (Inr (deleted_response 0), s'))))"

section \<open>Batch operations\<close>

definition error_entry :: "nat \<Rightarrow> string \<Rightarrow> pyval" where
  "error_entry i e = PDict [(''index'', PInt (int i)), (''error'', PStr e)]"

text \<open>
  The loop of \<open>add_memories_batch\<close> over \<open>enumerate(batch.memories)\<close>, from index
  \<open>i\<close> on: the \<open>except\<close> clause is inside the loop.
\<close>

fun add_each ::
  "'b Memory \<Rightarrow> nat \<Rightarrow> MemoryInput list \<Rightarrow> pyval list \<Rightarrow> pyval list \<Rightarrow> 'b state \<Rightarrow>
     (pyval list \<times> pyval list) \<times> 'b state" where
  "add_each m i [] memory_ids errors s = ((memory_ids, errors), s)"
| "add_each m i (x # xs) memory_ids errors s =
     (case invoke (Add (content x) (MemoryInput.user_id x) (or_empty (MemoryInput.metadata x)))
                  (add m (content x) (MemoryInput.user_id x) (or_empty (MemoryInput.metadata x))) s of
        (Inr result, s') \<Rightarrow> add_each m (i + 1) xs (memory_ids @ [result]) errors s'
      | (Inl e, s') \<Rightarrow> add_each m (i + 1) xs memory_ids (errors @ [error_entry i e]) s')"

definition batch_response :: "pyval list \<Rightarrow> pyval list \<Rightarrow> SuccessResponse" where
  "batch_response memory_ids errors =
     \<lparr>SuccessResponse.success = (length errors = 0),
      message = Some (''Added '' @ str_of_nat (length memory_ids) @ '' memories''),
      data = Some [(''memory_ids'', PList memory_ids),
                   (''errors'', if errors \<noteq> [] then PList errors else PNone)]\<rparr>"

definition add_memories_batch ::
  "'b state \<Rightarrow> BatchMemoryInput \<Rightarrow> (http_error + SuccessResponse) \<times> 'b state" where
  "add_memories_batch s batch =
     (case memory_instance s of
        None \<Rightarrow> (Inl not_initialized, s)
      | Some m \<Rightarrow>
          (case add_each m 0 (BatchMemoryInput.memories batch) [] [] s of
             ((memory_ids, errors), s') \<Rightarrow> (Inr (batch_response memory_ids errors), s')))"

section \<open>Routes\<close>

text \<open>
  FastAPI validates the body against the handler's parameter model before it calls the
  handler: \<open>add_memory(memory: MemoryInput)\<close>, \<open>search_memory(search: SearchInput)\<close>,
  \<open>add_memories_batch(batch: BatchMemoryInput)\<close>.
\<close>

definition post_memory_add ::
  "'b state \<Rightarrow> MemoryInput \<Rightarrow> (http_error + SuccessResponse) \<times> 'b state" where
  "post_memory_add s body =
     (if MemoryInput_errors body = [] then add_memory s body
      else (Inl (RequestValidationError (MemoryInput_errors body)), s))"

definition post_memory_search ::
  "(pyval \<Rightarrow> real option) \<Rightarrow> 'b state \<Rightarrow> SearchInput \<Rightarrow>
     (http_error + SearchResponse) \<times> 'b state" where
  "post_memory_search coerce s body =
     (if SearchInput_errors body = [] then search_memory coerce s body
      else (Inl (RequestValidationError (SearchInput_errors body)), s))"

definition post_memory_batch_add ::
  "'b state \<Rightarrow> BatchMemoryInput \<Rightarrow> (http_error + SuccessResponse) \<times> 'b state" where
  "post_memory_batch_add s body =
     (if BatchMemoryInput_errors body = [] then add_memories_batch s body
      else (Inl (RequestValidationError (BatchMemoryInput_errors body)), s))"

section \<open>Settings\<close>








text \<open>
  The value of \<open>cors_origins: List[str]\<close> is read as JSON. Each source decodes its
  own value, so a value of the file that is no JSON fails the construction even
  when the environment overrides it; a value that is JSON but no list of strings
  fails it only when it is the one taken.
\<close>

datatype decoded = Invalid_JSON | Not_str_list | Str_list "string list"







section \<open>Notions used in the statements\<close>

text \<open>
  The outcomes of adding the items of a batch one after the other, each on the state
  of the services that the one before left, and that state after the last item.
\<close>

fun attempts :: "'b Memory \<Rightarrow> MemoryInput list \<Rightarrow> 'b \<Rightarrow> (string + pyval) list" where
  "attempts m [] b = []"
| "attempts m (x # xs) b =
     (case add m (content x) (MemoryInput.user_id x) (or_empty (MemoryInput.metadata x)) b of
        (r, b') \<Rightarrow> r # attempts m xs b')"

fun after_attempts :: "'b Memory \<Rightarrow> MemoryInput list \<Rightarrow> 'b \<Rightarrow> 'b" where
  "after_attempts m [] b = b"
| "after_attempts m (x # xs) b =
     (case add m (content x) (MemoryInput.user_id x) (or_empty (MemoryInput.metadata x)) b of
        (r, b') \<Rightarrow> after_attempts m xs b')"

definition add_call :: "MemoryInput \<Rightarrow> call" where
  "add_call x = Add (content x) (MemoryInput.user_id x) (or_empty (MemoryInput.metadata x))"

text \<open>The ids of the outcomes that succeeded, in order.\<close>

fun assigned_ids :: "(string + pyval) list \<Rightarrow> pyval list" where
  "assigned_ids [] = []"
| "assigned_ids (Inr r # outs) = r # assigned_ids outs"
| "assigned_ids (Inl e # outs) = assigned_ids outs"

text \<open>
  One entry per outcome that failed, with the position of the item (the first outcome
  of the list has position \<open>i\<close>) and the message.
\<close>

fun error_entries :: "nat \<Rightarrow> (string + pyval) list \<Rightarrow> pyval list" where
  "error_entries i [] = []"
| "error_entries i (Inr r # outs) = error_entries (i + 1) outs"
| "error_entries i (Inl e # outs) = error_entry i e # error_entries (i + 1) outs"

fun succeeded :: "string + 'a \<Rightarrow> bool" where
  "succeeded (Inr r) = True"
| "succeeded (Inl e) = False"

text \<open>
  Deleting the given ids one after the other: the state of the services after the last
  one when no \<open>delete\<close> raises, the message of the first that does otherwise.
\<close>

fun run_deletes :: "'b Memory \<Rightarrow> pyval list \<Rightarrow> 'b \<Rightarrow> string + 'b" where
  "run_deletes m [] b = Inr b"
| "run_deletes m (i # ids) b =
     (case delete m i b of
        (Inl e, b') \<Rightarrow> Inl e
      | (Inr u, b') \<Rightarrow> run_deletes m ids b')"

text \<open>An entry has an id when its \<open>id\<close> key or attribute holds a true value.\<close>

definition has_id :: "pyval \<Rightarrow> bool" where
  "has_id mem = truthy (memory_id_of mem)"



text \<open>The value under a path of keys in nested dicts.\<close>

fun dict_path :: "pyval \<Rightarrow> string list \<Rightarrow> pyval option" where
  "dict_path v [] = Some v"
| "dict_path (PDict d) (k # ks) =
     (case map_of d k of None \<Rightarrow> None | Some v \<Rightarrow> dict_path v ks)"
| "dict_path v (k # ks) = None"

section \<open>A stand-in for the library\<close>

text \<open>
  An in-memory \<open>Memory\<close> for the examples: the services' state is the list of stored
  memories (id, user, text). \<open>add\<close> raises on the text \<open>boom\<close>; \<open>search\<close> and
  \<open>get_all\<close> return the user's memories as dicts, \<open>search\<close> at most \<open>limit\<close> of
  them, \<open>get_all\<close> under the key \<open>results\<close>.
\<close>

type_synonym store = "(string \<times> string \<times> string) list"

definition fake_entry :: "string \<times> string \<times> string \<Rightarrow> pyval" where
  "fake_entry e = PDict [(''id'', PStr (fst e)), (''memory'', PStr (snd (snd e)))]"

definition fake_add :: "string \<Rightarrow> string \<Rightarrow> pydict \<Rightarrow> store \<Rightarrow> (string + pyval) \<times> store" where
  "fake_add text uid md b =
     (if text = ''boom'' then (Inl ''embedding failed'', b)
      else (Inr (PStr (''m'' @ str_of_nat (length b))),
            b @ [(''m'' @ str_of_nat (length b), uid, text)]))"

definition fake_search :: "string \<Rightarrow> string \<Rightarrow> int \<Rightarrow> store \<Rightarrow> (string + pyval) \<times> store" where
  "fake_search q uid n b =
     (Inr (PList (take (nat n) (map fake_entry (filter (\<lambda>e. fst (snd e) = uid) b)))), b)"

definition fake_get_all :: "string \<Rightarrow> int option \<Rightarrow> store \<Rightarrow> (string + pyval) \<times> store" where
  "fake_get_all uid n b =
     (Inr (PDict [(''results'', PList (map fake_entry (filter (\<lambda>e. fst (snd e) = uid) b)))]), b)"

definition fake_delete :: "pyval \<Rightarrow> store \<Rightarrow> (string + unit) \<times> store" where
  "fake_delete memory_id b = (Inr (), filter (\<lambda>e. PStr (fst e) \<noteq> memory_id) b)"

definition fake_memory :: "store Memory" where
  "fake_memory =
     \<lparr>add = fake_add, search = fake_search, get_all = fake_get_all, delete = fake_delete\<rparr>"

text \<open>A server whose startup has set \<open>memory_instance\<close> to the library \<open>lib\<close>.\<close>

definition started :: "store Memory \<Rightarrow> store \<Rightarrow> store state" where
  "started lib b = (loaded [] b)\<lparr>memory_instance := Some lib\<rparr>"

text \<open>
  A library whose \<open>search\<close> finds the same text in the three shapes and returns at
  most \<open>limit\<close> of them, and one whose \<open>get_all\<close> returns entries of which only the
  last has an id.
\<close>

definition mixed_memory :: "store Memory" where
  "mixed_memory =
     fake_memory\<lparr>search := (\<lambda>q uid n b.
       (Inr (PList (take (nat n)
                      [PDict [(''memory'', PStr ''likes tea'')],
                       PObj ''MemoryItem'' [(''memory'', PStr ''likes tea'')],
                       PStr ''likes tea''])), b))\<rparr>"

definition ragged_memory :: "store Memory" where
  "ragged_memory =
     fake_memory\<lparr>get_all := (\<lambda>uid n b.
       (Inr (PList [PDict [(''memory'', PStr ''likes tea'')],
                    PDict [(''id'', PStr []), (''memory'', PStr ''likes tea'')],
                    PObj ''MemoryItem'' [(''memory'', PStr ''likes tea'')],
                    PStr ''likes tea'',
                    PDict [(''id'', PStr ''m0''), (''memory'', PStr ''likes tea'')]]), b))\<rparr>"

text \<open>A request item without metadata, a store that holds one memory, a batch.\<close>

definition item :: "string \<Rightarrow> string \<Rightarrow> MemoryInput" where
  "item text uid = \<lparr>content = text, MemoryInput.user_id = uid, MemoryInput.metadata = None\<rparr>"

definition tea_store :: store where
  "tea_store = [(''m0'', ''u1'', ''likes tea'')]"

definition three_items :: BatchMemoryInput where
  "three_items =
     \<lparr>BatchMemoryInput.memories =
        [item ''drinks coffee'' ''u1'', item ''boom'' ''u1'', item ''walks to work'' ''u2'']\<rparr>"

section \<open>Health\<close>

text \<open>
  C5. The health endpoint always answers 200. Its \<open>status\<close> is \<open>degraded\<close> when
  \<open>memory_instance\<close> is unset and \<open>healthy\<close> when it is set, whatever the rest of the
  state is; the body always holds the configured URL of the vector store, the
  connection status (\<open>connected\<close> exactly when \<open>memory_instance\<close> is set) and the
  configured collection name.
\<close>

theorem health_check_reports_adapter:
  "status_code (health_check s) = 200 \<and>
   (\<exists>body. health_check s = Inr body \<and>
      dict_path (PDict body) [''status''] =
        Some (PStr (if memory_instance s = None then ''degraded'' else ''healthy'')) \<and>
      dict_path (PDict body) [''connections'', ''qdrant'', ''url''] =
        Some (PStr (QDRANT_URL (config s))) \<and>
      dict_path (PDict body) [''connections'', ''qdrant'', ''status''] =
        Some (PStr (if memory_instance s = None then ''disconnected'' else ''connected'')) \<and>
      dict_path (PDict body) [''connections'', ''collection''] =
        Some (PStr (MEM0_COLLECTION (config s))))"
  by (simp add: health_check_def)

section \<open>Uncaught exceptions\<close>

text \<open>
  C7. For an uncaught exception the top-level handler answers 500 with the fixed error
  text; \<open>detail\<close> is the exception's message when the environment has \<open>DEBUG\<close> equal
  to \<open>true\<close> and null otherwise. When it is not, two exceptions get the same
  response, whatever their messages: nothing of the exception reaches the client.
\<close>

theorem global_exception_handler_hides_detail:
  "(\<exists>body. global_exception_handler s exc = JSONResponse 500 body \<and>
      dict_path (PDict body) [''success''] = Some (PBool False) \<and>
      dict_path (PDict body) [''error''] = Some (PStr ''Internal server error'') \<and>
      dict_path (PDict body) [''detail''] =
        Some (if getenv (environ s) ''DEBUG'' = Some ''true'' then PStr exc else PNone)) \<and>
   (getenv (environ s) ''DEBUG'' \<noteq> Some ''true'' \<longrightarrow>
      global_exception_handler s exc = global_exception_handler s exc')"
  by (simp add: global_exception_handler_def)

theorem global_exception_handler_hides_detail_witness:
  "getenv (environ (loaded [(''DEBUG'', ''false'')] ([] :: store))) ''DEBUG'' \<noteq> Some ''true'' \<and>
   global_exception_handler (loaded [(''DEBUG'', ''false'')] ([] :: store)) ''connection refused'' =
     JSONResponse 500 [(''success'', PBool False), (''error'', PStr ''Internal server error''),
                       (''detail'', PNone)] \<and>
   global_exception_handler (loaded [(''DEBUG'', ''false'')] ([] :: store)) ''connection refused'' =
     global_exception_handler (loaded [(''DEBUG'', ''false'')] []) ''bad api key sk-123''"
  using global_exception_handler_hides_detail
    [of "loaded [(''DEBUG'', ''false'')] ([] :: store)" "''connection refused''"
        "''bad api key sk-123''"]
  by (simp add: loaded_def getenv_def global_exception_handler_def)

section \<open>The adapter unset\<close>

text \<open>
  C3. When \<open>memory_instance\<close> is unset, each of the six memory operations (add,
  search, list, delete one, delete all of a user, batch add) answers 503 and returns
  the state as it was: the services' state and the log of library calls are part of
  the state, so no method of the library was called. The health endpoint still
  answers 200, with status \<open>degraded\<close>.
\<close>

theorem unset_adapter_is_unavailable:
  assumes "memory_instance s = None"
  shows "add_memory s memory_input =
           (Inl (HTTPException 503 ''Memory service not initialized''), s) \<and>
         search_memory coerce s search_input =
           (Inl (HTTPException 503 ''Memory service not initialized''), s) \<and>
         get_memories s uid n =
           (Inl (HTTPException 503 ''Memory service not initialized''), s) \<and>
         delete_memory s memory_id =
           (Inl (HTTPException 503 ''Memory service not initialized''), s) \<and>
         delete_user_memories s uid =
           (Inl (HTTPException 503 ''Memory service not initialized''), s) \<and>
         add_memories_batch s batch =
           (Inl (HTTPException 503 ''Memory service not initialized''), s) \<and>
         status_code (health_check s) = 200 \<and>
         (\<exists>body. health_check s = Inr body \<and>
            dict_path (PDict body) [''status''] = Some (PStr ''degraded''))"
  using assms
  by (simp add: add_memory_def search_memory_def get_memories_def delete_memory_def
      delete_user_memories_def add_memories_batch_def not_initialized_def health_check_def)

theorem unset_adapter_is_unavailable_witness:
  "memory_instance (loaded [] tea_store) = None \<and>
   add_memory (loaded [] tea_store)
       (item ''drinks coffee'' ''u1'') =
     (Inl (HTTPException 503 ''Memory service not initialized''),
      loaded [] tea_store) \<and>
   search_memory (\<lambda>v. None) (loaded [] tea_store)
       \<lparr>query = ''tea'', user_id = ''u1'', limit = 5\<rparr> =
     (Inl (HTTPException 503 ''Memory service not initialized''),
      loaded [] tea_store) \<and>
   get_memories (loaded [] tea_store) ''u1'' 100 =
     (Inl (HTTPException 503 ''Memory service not initialized''),
      loaded [] tea_store) \<and>
   delete_memory (loaded [] tea_store) ''m0'' =
     (Inl (HTTPException 503 ''Memory service not initialized''),
      loaded [] tea_store) \<and>
   delete_user_memories (loaded [] tea_store) ''u1'' =
     (Inl (HTTPException 503 ''Memory service not initialized''),
      loaded [] tea_store) \<and>
   add_memories_batch (loaded [] tea_store)
       \<lparr>BatchMemoryInput.memories = [item ''drinks coffee'' ''u1'']\<rparr> =
     (Inl (HTTPException 503 ''Memory service not initialized''),
      loaded [] tea_store) \<and>
   status_code (health_check (loaded [] tea_store)) = 200"
  using unset_adapter_is_unavailable
    [of "loaded [] tea_store"
        "item ''drinks coffee'' ''u1''"
        "\<lambda>v. None" "\<lparr>query = ''tea'', user_id = ''u1'', limit = 5\<rparr>" "''u1''" 100 "''m0''"
        "\<lparr>BatchMemoryInput.memories = [item ''drinks coffee'' ''u1'']\<rparr>"]
  by (simp add: loaded_def)


section \<open>Batch add\<close>

lemma add_each_attempts:
  "add_each m i xs ids errs s =
     ((ids @ assigned_ids (attempts m xs (backend s)),
       errs @ error_entries i (attempts m xs (backend s))),
      s\<lparr>backend := after_attempts m xs (backend s), calls := calls s @ map add_call xs\<rparr>)"
proof (induction xs arbitrary: i ids errs s)
  case Nil
  show ?case by simp
next
  case (Cons x xs)
  obtain r b' where step:
    "add m (content x) (MemoryInput.user_id x) (or_empty (MemoryInput.metadata x)) (backend s) = (r, b')"
    by (cases "add m (content x) (MemoryInput.user_id x) (or_empty (MemoryInput.metadata x)) (backend s)")
  show ?case
  proof (cases r)
    case (Inl e)
    with step Cons.IH show ?thesis by (simp add: invoke_def add_call_def)
  next
    case (Inr v)
    with step Cons.IH show ?thesis by (simp add: invoke_def add_call_def)
  qed
qed

lemma length_attempts: "length (attempts m xs b) = length xs"
  by (induction xs arbitrary: b) (auto split: prod.splits)

lemma assigned_plus_errors:
  "length (assigned_ids outs) + length (error_entries i outs) = length outs"
  by (induction i outs rule: error_entries.induct) auto

lemma all_succeeded_no_errors:
  "list_all succeeded outs \<Longrightarrow> error_entries i outs = []"
  by (induction i outs rule: error_entries.induct) auto

lemma one_failure_entry:
  "k < length outs \<Longrightarrow> outs ! k = Inl e \<Longrightarrow>
   (\<forall>j < length outs. j \<noteq> k \<longrightarrow> succeeded (outs ! j)) \<Longrightarrow>
   error_entries i outs = [error_entry (i + k) e]"
proof (induction i outs arbitrary: k rule: error_entries.induct)
  case (1 i)
  then show ?case by simp
next
  case (2 i r outs)
  from "2.prems" obtain k' where k: "k = Suc k'" by (cases k) auto
  have "\<forall>j < length outs. j \<noteq> k' \<longrightarrow> succeeded (outs ! j)"
  proof (intro allI impI)
    fix j assume "j < length outs" "j \<noteq> k'"
    with "2.prems"(3) k have "succeeded ((Inr r # outs) ! Suc j)" by auto
    then show "succeeded (outs ! j)" by simp
  qed
  with "2.IH"[of k'] "2.prems" k show ?case by simp
next
  case (3 i e' outs)
  show ?case
  proof (cases k)
    case 0
    have "list_all succeeded outs"
      unfolding list_all_length
    proof (intro allI impI)
      fix j assume "j < length outs"
      with "3.prems"(3) 0 have "succeeded ((Inl e' # outs) ! Suc j)" by auto
      then show "succeeded (outs ! j)" by simp
    qed
    with 0 "3.prems" show ?thesis by (simp add: all_succeeded_no_errors)
  next
    case (Suc k')
    with "3.prems"(3) have "succeeded ((Inl e' # outs) ! 0)" by auto
    then show ?thesis by simp
  qed
qed


text \<open>
  C4. With \<open>memory_instance\<close> set, a batch add attempts every item, in input order,
  whatever the outcomes of the items before: the library is called once per item.
  \<open>memory_ids\<close> holds the ids of the items that succeeded, in input order;
  \<open>errors\<close> holds one entry per item that failed, with its index and the message
  (and is null when no item failed); \<open>success\<close> is true exactly when no item
  failed. The two lists together have one entry per item. When every item succeeds
  there are as many ids as items and no error; when exactly one item fails, at index
  \<open>k\<close>, there is one id less than items and the one error entry bears \<open>k\<close>.
  This holds for every number of items; the route hands a batch to the handler when
  it has 1 to 50 items, each with a non-empty content and user id.
\<close>

theorem add_memories_batch_attempts_every_item:
  fixes s :: "'b state" and m :: "'b Memory" and batch :: BatchMemoryInput
  defines "outs \<equiv> attempts m (BatchMemoryInput.memories batch) (backend s)"
  assumes "memory_instance s = Some m"
  shows
    "add_memories_batch s batch =
       (Inr \<lparr>SuccessResponse.success = (error_entries 0 outs = []),
              message = Some (''Added '' @ str_of_nat (length (assigned_ids outs)) @ '' memories''),
              data = Some [(''memory_ids'', PList (assigned_ids outs)),
                           (''errors'', if error_entries 0 outs = [] then PNone
                                        else PList (error_entries 0 outs))]\<rparr>,
        s\<lparr>backend := after_attempts m (BatchMemoryInput.memories batch) (backend s),
          calls := calls s @ map add_call (BatchMemoryInput.memories batch)\<rparr>) \<and>
     length outs = length (BatchMemoryInput.memories batch) \<and>
     length (assigned_ids outs) + length (error_entries 0 outs) =
       length (BatchMemoryInput.memories batch) \<and>
     (list_all succeeded outs \<longrightarrow>
        length (assigned_ids outs) = length (BatchMemoryInput.memories batch) \<and>
        error_entries 0 outs = []) \<and>
     (\<forall>k e. k < length outs \<and> outs ! k = Inl e \<and>
            (\<forall>j < length outs. j \<noteq> k \<longrightarrow> succeeded (outs ! j)) \<longrightarrow>
        length (assigned_ids outs) = length (BatchMemoryInput.memories batch) - 1 \<and>
        error_entries 0 outs = [PDict [(''index'', PInt (int k)), (''error'', PStr e)]]) \<and>
     (BatchMemoryInput_errors batch = [] \<longrightarrow>
        1 \<le> length (BatchMemoryInput.memories batch) \<and>
        length (BatchMemoryInput.memories batch) \<le> 50 \<and>
        post_memory_batch_add s batch = add_memories_batch s batch)"
proof -
  have route: "BatchMemoryInput_errors batch = [] \<longrightarrow>
        1 \<le> length (BatchMemoryInput.memories batch) \<and>
        length (BatchMemoryInput.memories batch) \<le> 50 \<and>
        post_memory_batch_add s batch = add_memories_batch s batch"
    by (cases "BatchMemoryInput.memories batch")
      (auto simp: BatchMemoryInput_errors_def post_memory_batch_add_def split: if_splits)
  have len: "length outs = length (BatchMemoryInput.memories batch)"
    by (simp add: outs_def length_attempts)
  have sum: "length (assigned_ids outs) + length (error_entries 0 outs) = length outs"
    by (rule assigned_plus_errors)
  have response: "add_memories_batch s batch =
       (Inr \<lparr>SuccessResponse.success = (error_entries 0 outs = []),
              message = Some (''Added '' @ str_of_nat (length (assigned_ids outs)) @ '' memories''),
              data = Some [(''memory_ids'', PList (assigned_ids outs)),
                           (''errors'', if error_entries 0 outs = [] then PNone
                                        else PList (error_entries 0 outs))]\<rparr>,
        s\<lparr>backend := after_attempts m (BatchMemoryInput.memories batch) (backend s),
          calls := calls s @ map add_call (BatchMemoryInput.memories batch)\<rparr>)"
    using assms(2)
    by (simp add: add_memories_batch_def add_each_attempts batch_response_def outs_def)
  have all_ok: "list_all succeeded outs \<longrightarrow>
        length (assigned_ids outs) = length (BatchMemoryInput.memories batch) \<and>
        error_entries 0 outs = []"
  proof
    assume ok: "list_all succeeded outs"
    then have "error_entries 0 outs = []" by (rule all_succeeded_no_errors)
    with sum len show "length (assigned_ids outs) = length (BatchMemoryInput.memories batch) \<and>
        error_entries 0 outs = []" by simp
  qed
  have one: "\<forall>k e. k < length outs \<and> outs ! k = Inl e \<and>
            (\<forall>j < length outs. j \<noteq> k \<longrightarrow> succeeded (outs ! j)) \<longrightarrow>
        length (assigned_ids outs) = length (BatchMemoryInput.memories batch) - 1 \<and>
        error_entries 0 outs = [PDict [(''index'', PInt (int k)), (''error'', PStr e)]]"
  proof (intro allI impI)
    fix k e
    assume h: "k < length outs \<and> outs ! k = Inl e \<and>
            (\<forall>j < length outs. j \<noteq> k \<longrightarrow> succeeded (outs ! j))"
    then have "error_entries 0 outs = [error_entry (0 + k) e]"
      by (intro one_failure_entry) auto
    then have errs: "error_entries 0 outs = [PDict [(''index'', PInt (int k)), (''error'', PStr e)]]"
      by (simp add: error_entry_def)
    with sum len show "length (assigned_ids outs) = length (BatchMemoryInput.memories batch) - 1 \<and>
        error_entries 0 outs = [PDict [(''index'', PInt (int k)), (''error'', PStr e)]]"
      by simp
  qed
  from sum len have total: "length (assigned_ids outs) + length (error_entries 0 outs) =
       length (BatchMemoryInput.memories batch)"
    by simp
  from response len total all_ok one route show ?thesis by blast
qed

lemma fake_outs: "attempts fake_memory (BatchMemoryInput.memories three_items) tea_store =
    [Inr (PStr ''m1''), Inl ''embedding failed'', Inr (PStr ''m2'')]"
  by (simp add: three_items_def item_def fake_memory_def fake_add_def tea_store_def str_of_nat.simps)

theorem add_memories_batch_attempts_every_item_witness:
  "memory_instance (started fake_memory tea_store) = Some fake_memory \<and>
   attempts fake_memory (BatchMemoryInput.memories three_items) (backend (started fake_memory tea_store)) =
     [Inr (PStr ''m1''), Inl ''embedding failed'', Inr (PStr ''m2'')] \<and>
   fst (add_memories_batch (started fake_memory tea_store) three_items) =
     Inr \<lparr>SuccessResponse.success = False, message = Some ''Added 2 memories'',
          data = Some [(''memory_ids'', PList [PStr ''m1'', PStr ''m2'']),
                       (''errors'', PList [PDict [(''index'', PInt 1),
                                                  (''error'', PStr ''embedding failed'')]])]\<rparr> \<and>
   calls (snd (add_memories_batch (started fake_memory tea_store) three_items)) =
     [Add ''drinks coffee'' ''u1'' [], Add ''boom'' ''u1'' [], Add ''walks to work'' ''u2'' []] \<and>
   BatchMemoryInput_errors three_items = [] \<and>
   post_memory_batch_add (started fake_memory tea_store) three_items =
     add_memories_batch (started fake_memory tea_store) three_items"
proof -
  have valid: "BatchMemoryInput_errors three_items = []"
    by (simp add: BatchMemoryInput_errors_def three_items_def item_def MemoryInput_errors_def
        enumerate_eq_zip)
  have set: "memory_instance (started fake_memory tea_store) = Some fake_memory"
    by (simp add: started_def loaded_def)
  have b: "backend (started fake_memory tea_store) = tea_store"
    by (simp add: started_def loaded_def)
  have c: "calls (started fake_memory tea_store) = []"
    by (simp add: started_def loaded_def)
  have items: "map add_call (BatchMemoryInput.memories three_items) =
     [Add ''drinks coffee'' ''u1'' [], Add ''boom'' ''u1'' [], Add ''walks to work'' ''u2'' []]"
    by (simp add: three_items_def item_def add_call_def)
  show ?thesis
    using add_memories_batch_attempts_every_item [OF set, of three_items]
    by (simp add: set b c items fake_outs error_entry_def str_of_nat.simps valid)
qed

section \<open>Deleting the memories of a user\<close>

lemma delete_each_skips:
  "delete_each m mems n s = delete_each m (filter has_id mems) n s"
proof (induction mems arbitrary: n s)
  case Nil
  show ?case by simp
next
  case (Cons mem mems)
  show ?case
  proof (cases "has_id mem")
    case True
    then have id: "truthy (memory_id_of mem)" by (simp add: has_id_def)
    obtain r b' where step: "delete m (memory_id_of mem) (backend s) = (r, b')"
      by (cases "delete m (memory_id_of mem) (backend s)")
    show ?thesis
      using True id step Cons.IH by (cases r) (simp_all add: invoke_def)
  next
    case False
    then have "\<not> truthy (memory_id_of mem)" by (simp add: has_id_def)
    with False Cons.IH show ?thesis by simp
  qed
qed

lemma delete_each_all_succeed:
  "run_deletes m (filter truthy (map memory_id_of mems)) (backend s) = Inr b' \<Longrightarrow>
   delete_each m mems n s =
     (Inr (n + length (filter truthy (map memory_id_of mems))),
      s\<lparr>backend := b', calls := calls s @ map Delete (filter truthy (map memory_id_of mems))\<rparr>)"
proof (induction mems arbitrary: n s)
  case Nil
  then show ?case by simp
next
  case (Cons mem mems)
  show ?case
  proof (cases "truthy (memory_id_of mem)")
    case False
    with Cons show ?thesis by simp
  next
    case True
    obtain r b1 where step: "delete m (memory_id_of mem) (backend s) = (r, b1)"
      by (cases "delete m (memory_id_of mem) (backend s)")
    show ?thesis
    proof (cases r)
      case (Inl e)
      with True step Cons.prems show ?thesis by simp
    next
      case (Inr u)
      with True step Cons.prems
      have rest: "run_deletes m (filter truthy (map memory_id_of mems)) b1 = Inr b'" by simp
      have "delete_each m mems (Suc n) (s\<lparr>backend := b1, calls := calls s @ [Delete (memory_id_of mem)]\<rparr>) =
        (Inr (Suc n + length (filter truthy (map memory_id_of mems))),
         s\<lparr>backend := b', calls := (calls s @ [Delete (memory_id_of mem)]) @
              map Delete (filter truthy (map memory_id_of mems))\<rparr>)"
        using Cons.IH [of "s\<lparr>backend := b1, calls := calls s @ [Delete (memory_id_of mem)]\<rparr>" "Suc n"] rest
        by simp
      with True step Inr show ?thesis by (simp add: invoke_def)
    qed
  qed
qed

lemma filter_has_id_none: "list_all (\<lambda>mem. \<not> has_id mem) mems \<Longrightarrow> filter has_id mems = []"
  by (induction mems) auto

text \<open>
  C6. With \<open>memory_instance\<close> set, deleting all memories of a user first fetches
  them (\<open>get_all\<close> with the user and no limit) and then calls \<open>delete\<close> once per
  fetched entry that has an id, in order. When the fetch yields nothing, the answer is
  success with \<open>deleted_count = 0\<close> and no \<open>delete\<close> is called. When no
  \<open>delete\<close> raises, the answer is success and \<open>deleted_count\<close> is the number of
  \<open>delete\<close> calls made.
\<close>

theorem delete_user_memories_fetch_then_delete:
  assumes "memory_instance s = Some m"
    and "get_all m uid None (backend s) = (Inr raw, b1)"
  shows
    "(\<not> truthy (extract_memories raw) \<longrightarrow>
        delete_user_memories s uid =
          (Inr \<lparr>SuccessResponse.success = True, message = Some ''Deleted 0 memories'',
                 data = Some [(''deleted_count'', PInt 0)]\<rparr>,
           s\<lparr>backend := b1, calls := calls s @ [Get_all uid None]\<rparr>)) \<and>
     (\<forall>mems b2.
        truthy (extract_memories raw) \<and> py_iter (extract_memories raw) = Inr mems \<and>
        run_deletes m (filter truthy (map memory_id_of mems)) b1 = Inr b2 \<longrightarrow>
        delete_user_memories s uid =
          (Inr \<lparr>SuccessResponse.success = True,
                 message = Some (''Deleted '' @
                   str_of_nat (length (filter truthy (map memory_id_of mems))) @ '' memories''),
                 data = Some [(''deleted_count'',
                   PInt (int (length (filter truthy (map memory_id_of mems)))))]\<rparr>,
           s\<lparr>backend := b2,
             calls := calls s @ Get_all uid None #
               map Delete (filter truthy (map memory_id_of mems))\<rparr>))"
proof (intro conjI allI impI)
  assume "\<not> truthy (extract_memories raw)"
  with assms show "delete_user_memories s uid =
          (Inr \<lparr>SuccessResponse.success = True, message = Some ''Deleted 0 memories'',
                 data = Some [(''deleted_count'', PInt 0)]\<rparr>,
           s\<lparr>backend := b1, calls := calls s @ [Get_all uid None]\<rparr>)"
    by (simp add: delete_user_memories_def invoke_def deleted_response_def str_of_nat.simps)
next
  fix mems b2
  assume h: "truthy (extract_memories raw) \<and> py_iter (extract_memories raw) = Inr mems \<and>
        run_deletes m (filter truthy (map memory_id_of mems)) b1 = Inr b2"
  let ?s1 = "s\<lparr>backend := b1, calls := calls s @ [Get_all uid None]\<rparr>"
  from h have "run_deletes m (filter truthy (map memory_id_of mems)) (backend ?s1) = Inr b2"
    by simp
  then have "delete_each m mems 0 ?s1 =
     (Inr (0 + length (filter truthy (map memory_id_of mems))),
      ?s1\<lparr>backend := b2,
          calls := calls ?s1 @ map Delete (filter truthy (map memory_id_of mems))\<rparr>)"
    by (rule delete_each_all_succeed)
  with assms h show "delete_user_memories s uid =
          (Inr \<lparr>SuccessResponse.success = True,
                 message = Some (''Deleted '' @
                   str_of_nat (length (filter truthy (map memory_id_of mems))) @ '' memories''),
                 data = Some [(''deleted_count'',
                   PInt (int (length (filter truthy (map memory_id_of mems)))))]\<rparr>,
           s\<lparr>backend := b2,
             calls := calls s @ Get_all uid None #
               map Delete (filter truthy (map memory_id_of mems))\<rparr>)"
    by (simp add: delete_user_memories_def invoke_def deleted_response_def)
qed

theorem delete_user_memories_fetch_then_delete_witness:
  "memory_instance (started fake_memory tea_store) = Some fake_memory \<and>
   get_all fake_memory ''u1'' None (backend (started fake_memory tea_store)) =
     (Inr (PDict [(''results'',
        PList [PDict [(''id'', PStr ''m0''), (''memory'', PStr ''likes tea'')]])]), tea_store) \<and>
   run_deletes fake_memory [PStr ''m0''] tea_store = Inr [] \<and>
   delete_user_memories (started fake_memory tea_store) ''u1'' =
     (Inr \<lparr>SuccessResponse.success = True, message = Some ''Deleted 1 memories'',
            data = Some [(''deleted_count'', PInt 1)]\<rparr>,
      (started fake_memory tea_store)\<lparr>backend := [], calls := [Get_all ''u1'' None, Delete (PStr ''m0'')]\<rparr>) \<and>
   delete_user_memories (started fake_memory tea_store) ''u2'' =
     (Inr \<lparr>SuccessResponse.success = True, message = Some ''Deleted 0 memories'',
            data = Some [(''deleted_count'', PInt 0)]\<rparr>,
      (started fake_memory tea_store)\<lparr>backend := tea_store, calls := [Get_all ''u2'' None]\<rparr>)"
proof -
  have inst: "memory_instance (started fake_memory tea_store) = Some fake_memory"
    by (simp add: started_def loaded_def)
  have fetch1: "get_all fake_memory ''u1'' None (backend (started fake_memory tea_store)) =
     (Inr (PDict [(''results'',
        PList [PDict [(''id'', PStr ''m0''), (''memory'', PStr ''likes tea'')]])]), tea_store)"
    by (simp add: started_def loaded_def fake_memory_def fake_get_all_def tea_store_def
        fake_entry_def)
  have fetch2: "get_all fake_memory ''u2'' None (backend (started fake_memory tea_store)) =
     (Inr (PDict [(''results'', PList [])]), tea_store)"
    by (simp add: started_def loaded_def fake_memory_def fake_get_all_def tea_store_def)
  have run: "run_deletes fake_memory [PStr ''m0''] tea_store = Inr []"
    by (simp add: fake_memory_def fake_delete_def tea_store_def)
  have c: "calls (started fake_memory tea_store) = []"
    by (simp add: started_def loaded_def)
  show ?thesis
    using delete_user_memories_fetch_then_delete [OF inst fetch1]
      delete_user_memories_fetch_then_delete [OF inst fetch2]
    by (simp add: started_def loaded_def dict_get_def str_of_nat.simps fake_memory_def
        fake_delete_def fake_get_all_def fake_entry_def tea_store_def)
qed

text \<open>
  C10. In deleting all memories of a user, a fetched entry has an id only when its
  \<open>id\<close> key (of a dict) or \<open>id\<close> attribute (of an object) exists and holds a true
  value. Entries without one are skipped: the loop, and with it the answer and the
  calls made, are those of the list with these entries left out. They are neither
  deleted nor counted, and a fetch that yields only such entries is answered with
  success and \<open>deleted_count = 0\<close>.
\<close>

theorem delete_user_memories_skips_entries_without_id:
  assumes "memory_instance s = Some m"
    and "get_all m uid None (backend s) = (Inr raw, b1)"
    and "py_iter (extract_memories raw) = Inr mems"
  shows
    "has_id (PDict d) = (case map_of d ''id'' of None \<Rightarrow> False | Some v \<Rightarrow> truthy v) \<and>
     has_id (PObj c attrs) = (case map_of attrs ''id'' of None \<Rightarrow> False | Some v \<Rightarrow> truthy v) \<and>
     delete_each m mems n s' = delete_each m (filter has_id mems) n s' \<and>
     delete_user_memories s uid =
       (case delete_each m (filter has_id mems) 0
               (s\<lparr>backend := b1, calls := calls s @ [Get_all uid None]\<rparr>) of
          (Inl e, s2) \<Rightarrow> (Inl (HTTPException 500 (''Failed to delete memories: '' @ e)), s2)
        | (Inr k, s2) \<Rightarrow>
            (Inr \<lparr>SuccessResponse.success = True,
                   message = Some (''Deleted '' @ str_of_nat k @ '' memories''),
                   data = Some [(''deleted_count'', PInt (int k))]\<rparr>, s2)) \<and>
     (list_all (\<lambda>mem. \<not> has_id mem) mems \<longrightarrow>
        delete_user_memories s uid =
          (Inr \<lparr>SuccessResponse.success = True, message = Some ''Deleted 0 memories'',
                 data = Some [(''deleted_count'', PInt 0)]\<rparr>,
           s\<lparr>backend := b1, calls := calls s @ [Get_all uid None]\<rparr>))"
proof -
  let ?s1 = "s\<lparr>backend := b1, calls := calls s @ [Get_all uid None]\<rparr>"
  have dict: "has_id (PDict d) = (case map_of d ''id'' of None \<Rightarrow> False | Some v \<Rightarrow> truthy v)"
    by (simp add: has_id_def dict_get_def split: option.splits)
  have obj: "has_id (PObj c attrs) =
      (case map_of attrs ''id'' of None \<Rightarrow> False | Some v \<Rightarrow> truthy v)"
    by (simp add: has_id_def dict_get_def split: option.splits)
  have loop: "delete_each m mems n s' = delete_each m (filter has_id mems) n s'"
    by (rule delete_each_skips)
  have empty: "\<not> truthy (extract_memories raw) \<Longrightarrow> mems = []"
    using assms(3) by (cases "extract_memories raw") auto
  have handler: "delete_user_memories s uid =
       (case delete_each m (filter has_id mems) 0 ?s1 of
          (Inl e, s2) \<Rightarrow> (Inl (HTTPException 500 (''Failed to delete memories: '' @ e)), s2)
        | (Inr k, s2) \<Rightarrow>
            (Inr \<lparr>SuccessResponse.success = True,
                   message = Some (''Deleted '' @ str_of_nat k @ '' memories''),
                   data = Some [(''deleted_count'', PInt (int k))]\<rparr>, s2))"
  proof (cases "truthy (extract_memories raw)")
    case True
    with assms show ?thesis
      by (simp add: delete_user_memories_def invoke_def deleted_response_def delete_failed_def
          delete_each_skips [of m mems 0 ?s1, symmetric]
          split: prod.splits sum.splits)
  next
    case False
    with assms empty show ?thesis
      by (simp add: delete_user_memories_def invoke_def deleted_response_def)
  qed
  have none: "list_all (\<lambda>mem. \<not> has_id mem) mems \<longrightarrow>
        delete_user_memories s uid =
          (Inr \<lparr>SuccessResponse.success = True, message = Some ''Deleted 0 memories'',
                 data = Some [(''deleted_count'', PInt 0)]\<rparr>, ?s1)"
  proof
    assume "list_all (\<lambda>mem. \<not> has_id mem) mems"
    then have "filter has_id mems = []" by (rule filter_has_id_none)
    with handler show "delete_user_memories s uid =
          (Inr \<lparr>SuccessResponse.success = True, message = Some ''Deleted 0 memories'',
                 data = Some [(''deleted_count'', PInt 0)]\<rparr>, ?s1)"
      by (simp add: str_of_nat.simps)
  qed
  from dict obj loop handler none show ?thesis by blast
qed

theorem delete_user_memories_skips_entries_without_id_witness:
  "memory_instance (started ragged_memory tea_store) = Some ragged_memory \<and>
   get_all ragged_memory ''u1'' None (backend (started ragged_memory tea_store)) =
     (Inr (PList [PDict [(''memory'', PStr ''likes tea'')],
                  PDict [(''id'', PStr []), (''memory'', PStr ''likes tea'')],
                  PObj ''MemoryItem'' [(''memory'', PStr ''likes tea'')],
                  PStr ''likes tea'',
                  PDict [(''id'', PStr ''m0''), (''memory'', PStr ''likes tea'')]]), tea_store) \<and>
   filter has_id [PDict [(''memory'', PStr ''likes tea'')],
                  PDict [(''id'', PStr []), (''memory'', PStr ''likes tea'')],
                  PObj ''MemoryItem'' [(''memory'', PStr ''likes tea'')],
                  PStr ''likes tea'',
                  PDict [(''id'', PStr ''m0''), (''memory'', PStr ''likes tea'')]] =
     [PDict [(''id'', PStr ''m0''), (''memory'', PStr ''likes tea'')]] \<and>
   delete_user_memories (started ragged_memory tea_store) ''u1'' =
     (Inr \<lparr>SuccessResponse.success = True, message = Some ''Deleted 1 memories'',
            data = Some [(''deleted_count'', PInt 1)]\<rparr>,
      (started ragged_memory tea_store)
        \<lparr>backend := [], calls := [Get_all ''u1'' None, Delete (PStr ''m0'')]\<rparr>)"
proof -
  have inst: "memory_instance (started ragged_memory tea_store) = Some ragged_memory"
    by (simp add: started_def loaded_def)
  have fetch: "get_all ragged_memory ''u1'' None (backend (started ragged_memory tea_store)) =
     (Inr (PList [PDict [(''memory'', PStr ''likes tea'')],
                  PDict [(''id'', PStr []), (''memory'', PStr ''likes tea'')],
                  PObj ''MemoryItem'' [(''memory'', PStr ''likes tea'')],
                  PStr ''likes tea'',
                  PDict [(''id'', PStr ''m0''), (''memory'', PStr ''likes tea'')]]), tea_store)"
    by (simp add: started_def loaded_def ragged_memory_def)
  have iter: "py_iter (extract_memories
      (PList [PDict [(''memory'', PStr ''likes tea'')],
              PDict [(''id'', PStr []), (''memory'', PStr ''likes tea'')],
              PObj ''MemoryItem'' [(''memory'', PStr ''likes tea'')],
              PStr ''likes tea'',
              PDict [(''id'', PStr ''m0''), (''memory'', PStr ''likes tea'')]])) =
     Inr [PDict [(''memory'', PStr ''likes tea'')],
          PDict [(''id'', PStr []), (''memory'', PStr ''likes tea'')],
          PObj ''MemoryItem'' [(''memory'', PStr ''likes tea'')],
          PStr ''likes tea'',
          PDict [(''id'', PStr ''m0''), (''memory'', PStr ''likes tea'')]]"
    by simp
  show ?thesis
    using delete_user_memories_skips_entries_without_id [OF inst fetch iter]
    by (simp add: started_def loaded_def ragged_memory_def fake_memory_def fake_delete_def
        tea_store_def has_id_def dict_get_def invoke_def str_of_nat.simps)
qed


section \<open>Search\<close>




text \<open>
  C1. The handler does not treat the three shapes alike. For a mapping and for an
  object that hold a text and nothing else, the item has score 0.0 and no
  metadata. For the bare string of the same text the \<open>str\<close> branch assigns the text
  only, so the item keeps the values the loop starts from: score 1.0 and metadata
  \<open>{}\<close>. A search whose library returns the text in the three shapes is answered
  with two equal items and a third that differs from them.
\<close>

theorem bare_string_keeps_initial_score:
  "format_item coerce (PDict [(''memory'', PStr t)]) =
     Inr \<lparr>memory = t, score = 0, metadata = None\<rparr> \<and>
   format_item coerce (PObj c [(''memory'', PStr t)]) =
     Inr \<lparr>memory = t, score = 0, metadata = None\<rparr> \<and>
   format_item coerce (PStr t) = Inr \<lparr>memory = t, score = 1, metadata = Some []\<rparr> \<and>
   format_item coerce (PStr t) \<noteq> format_item coerce (PDict [(''memory'', PStr t)]) \<and>
   fst (search_memory (\<lambda>v. None) (started mixed_memory tea_store)
          \<lparr>query = ''drinks'', user_id = ''u1'', limit = 5\<rparr>) =
     Inr \<lparr>SearchResponse.success = True,
          results = [\<lparr>memory = ''likes tea'', score = 0, metadata = None\<rparr>,
                     \<lparr>memory = ''likes tea'', score = 0, metadata = None\<rparr>,
                     \<lparr>memory = ''likes tea'', score = 1, metadata = Some []\<rparr>],
          SearchResponse.count = 3\<rparr>"
proof -
  have shapes: "format_item coerce (PDict [(''memory'', PStr t)]) =
     Inr \<lparr>memory = t, score = 0, metadata = None\<rparr> \<and>
   format_item coerce (PObj c [(''memory'', PStr t)]) =
     Inr \<lparr>memory = t, score = 0, metadata = None\<rparr> \<and>
   format_item coerce (PStr t) = Inr \<lparr>memory = t, score = 1, metadata = Some []\<rparr>"
    by (simp add: format_item_def dict_get_def SearchResult_init_def)
  then have differ:
    "format_item coerce (PStr t) \<noteq> format_item coerce (PDict [(''memory'', PStr t)])"
    by simp
  have run: "fst (search_memory (\<lambda>v. None) (started mixed_memory tea_store)
          \<lparr>query = ''drinks'', user_id = ''u1'', limit = 5\<rparr>) =
     Inr \<lparr>SearchResponse.success = True,
          results = [\<lparr>memory = ''likes tea'', score = 0, metadata = None\<rparr>,
                     \<lparr>memory = ''likes tea'', score = 0, metadata = None\<rparr>,
                     \<lparr>memory = ''likes tea'', score = 1, metadata = Some []\<rparr>],
          SearchResponse.count = 3\<rparr>"
    by (simp add: search_memory_def started_def loaded_def mixed_memory_def fake_memory_def
        invoke_def search_response_def format_item_def dict_get_def SearchResult_init_def)
  from shapes differ run show ?thesis by blast
qed



section \<open>Validation of the request bodies\<close>

lemma long_ne: "replicate 10001 CHR ''a'' \<noteq> ''boom''"
proof
  assume "replicate 10001 CHR ''a'' = ''boom''"
  then have "length (replicate 10001 CHR ''a'') = length ''boom''" by (rule arg_cong)
  then show False by simp
qed

text \<open>
  C2. The models that the routes validate with, \<open>MemoryInput\<close> and \<open>SearchInput\<close>,
  bound the lengths from below only. A content of 10001 characters, a user id of 101
  characters and a query of 501 characters pass validation and reach the library,
  while \<open>MemoryCreate\<close> and \<open>MemorySearch\<close> of \<open>schemas.py\<close> refuse the same
  bodies.
\<close>

theorem overlong_inputs_reach_the_library:
  "length (replicate 10001 CHR ''a'') = 10001 \<and>
   MemoryCreate_errors (item (replicate 10001 CHR ''a'') ''u1'') = [[''content'']] \<and>
   MemoryInput_errors (item (replicate 10001 CHR ''a'') ''u1'') = [] \<and>
   fst (post_memory_add (started fake_memory []) (item (replicate 10001 CHR ''a'') ''u1'')) =
     Inr \<lparr>SuccessResponse.success = True, message = Some ''Memory added successfully'',
          data = Some [(''memory_id'', PStr ''m0'')]\<rparr> \<and>
   calls (snd (post_memory_add (started fake_memory []) (item (replicate 10001 CHR ''a'') ''u1''))) =
     [Add (replicate 10001 CHR ''a'') ''u1'' []] \<and>
   MemoryCreate_errors (item ''likes tea'' (replicate 101 CHR ''u'')) = [[''user_id'']] \<and>
   calls (snd (post_memory_add (started fake_memory []) (item ''likes tea'' (replicate 101 CHR ''u'')))) =
     [Add ''likes tea'' (replicate 101 CHR ''u'') []] \<and>
   MemorySearch_errors \<lparr>query = replicate 501 CHR ''q'', user_id = ''u1'', limit = 5\<rparr> = [[''query'']] \<and>
   fst (post_memory_search (\<lambda>v. None) (started fake_memory [])
          \<lparr>query = replicate 501 CHR ''q'', user_id = ''u1'', limit = 5\<rparr>) =
     Inr \<lparr>SearchResponse.success = True, results = [], SearchResponse.count = 0\<rparr> \<and>
   calls (snd (post_memory_search (\<lambda>v. None) (started fake_memory [])
          \<lparr>query = replicate 501 CHR ''q'', user_id = ''u1'', limit = 5\<rparr>)) =
     [Search (replicate 501 CHR ''q'') ''u1'' 5]"
  using long_ne
  by (simp add: MemoryCreate_errors_def MemoryInput_errors_def MemorySearch_errors_def
      SearchInput_errors_def item_def post_memory_add_def post_memory_search_def
      add_memory_def search_memory_def started_def loaded_def fake_memory_def fake_add_def
      fake_search_def invoke_def search_response_def str_of_nat.simps)

section \<open>Configuration\<close>














end
